theory Spec2Isabelle
  imports Main
begin

section \<open>Method names (permissions.ts)\<close>

text \<open>
  \<^verbatim>\<open>InternalMethod\<close> is the string enum of \<^verbatim>\<open>permissions.ts\<close>; its values are the
  literals written there.
\<close>

datatype InternalMethod = ToggleSyncApprovals | IsSynchronousMode | CreateAccountWithPrivateKey

fun InternalMethod_value :: "InternalMethod \<Rightarrow> string" where
  "InternalMethod_value ToggleSyncApprovals = ''snap.internal.toggleSynchronousApprovals''"
| "InternalMethod_value IsSynchronousMode = ''snap.internal.isSynchronousMode''"
| "InternalMethod_value CreateAccountWithPrivateKey = ''snap.internal.createAccountWithPrivateKey''"

text \<open>
  \<^verbatim>\<open>KeyringRpcMethod\<close> is imported from the package \<^verbatim>\<open>@metamask/keyring-api\<close>. The
  members that \<^verbatim>\<open>permissions.ts\<close> mentions are the constructors below; the string each
  member stands for is declared in that package, so every definition that reads the enum
  takes the assignment of strings to members as its first argument \<open>krm\<close>.
\<close>

datatype KeyringRpcMethod =
  ListAccounts | GetAccount | CreateAccount | FilterAccountChains | UpdateAccount
  | DeleteAccount | ExportAccount | ListRequests | GetRequest | SubmitRequest
  | ApproveRequest | RejectRequest

text \<open>
  The assignment published by the package, used wherever a concrete instance of \<open>krm\<close>
  is evaluated.
\<close>

fun keyring_api_names :: "KeyringRpcMethod \<Rightarrow> string" where
  "keyring_api_names ListAccounts = ''keyring_listAccounts''"
| "keyring_api_names GetAccount = ''keyring_getAccount''"
| "keyring_api_names CreateAccount = ''keyring_createAccount''"
| "keyring_api_names FilterAccountChains = ''keyring_filterAccountChains''"
| "keyring_api_names UpdateAccount = ''keyring_updateAccount''"
| "keyring_api_names DeleteAccount = ''keyring_deleteAccount''"
| "keyring_api_names ExportAccount = ''keyring_exportAccount''"
| "keyring_api_names ListRequests = ''keyring_listRequests''"
| "keyring_api_names GetRequest = ''keyring_getRequest''"
| "keyring_api_names SubmitRequest = ''keyring_submitRequest''"
| "keyring_api_names ApproveRequest = ''keyring_approveRequest''"
| "keyring_api_names RejectRequest = ''keyring_rejectRequest''"

text \<open>
  What the theorems below ask of the enum, where they need it: a member that is left out
  of a list is not the same string as a member that is in it.
\<close>

definition distinct_names :: "(KeyringRpcMethod \<Rightarrow> string) \<Rightarrow> bool" where
  "distinct_names krm = distinct (map krm
     [ListAccounts, GetAccount, CreateAccount, FilterAccountChains, UpdateAccount,
      DeleteAccount, ExportAccount, ListRequests, GetRequest, SubmitRequest,
      ApproveRequest, RejectRequest])"

section \<open>The permission table (permissions.ts)\<close>

text \<open>
  \<^verbatim>\<open>new Map(entries)\<close> inserts the entries from left to right, a later entry for a key
  replacing an earlier one.
\<close>

definition Map_new :: "('a \<times> 'b) list \<Rightarrow> ('a \<rightharpoonup> 'b)" where
  "Map_new entries = foldl (\<lambda>m (k, v). m(k \<mapsto> v)) Map.empty entries"

definition originPermissions_entries ::
  "(KeyringRpcMethod \<Rightarrow> string) \<Rightarrow> (string \<times> string list) list" where
  "originPermissions_entries krm =
     [(''metamask'',
        [krm ListAccounts, krm GetAccount, krm FilterAccountChains, krm DeleteAccount,
         krm ListRequests, krm GetRequest, krm SubmitRequest, krm RejectRequest]),
      (''http://localhost:8000'',
        [krm ListAccounts, krm GetAccount, krm CreateAccount, krm FilterAccountChains,
         krm UpdateAccount, krm DeleteAccount, krm ExportAccount, krm ListRequests,
         krm GetRequest, krm ApproveRequest, krm RejectRequest,
         InternalMethod_value ToggleSyncApprovals,
         InternalMethod_value IsSynchronousMode,
         InternalMethod_value CreateAccountWithPrivateKey]),
      (''https://metamask.github.io'',
        [krm ListAccounts, krm GetAccount, krm CreateAccount, krm FilterAccountChains,
         krm UpdateAccount, krm DeleteAccount, krm ExportAccount, krm ListRequests,
         krm GetRequest, krm ApproveRequest, krm RejectRequest,
         InternalMethod_value ToggleSyncApprovals,
         InternalMethod_value IsSynchronousMode,
         InternalMethod_value CreateAccountWithPrivateKey])]"

definition originPermissions ::
  "(KeyringRpcMethod \<Rightarrow> string) \<Rightarrow> (string \<rightharpoonup> string list)" where
  "originPermissions krm = Map_new (originPermissions_entries krm)"

section \<open>The permission check (index.ts)\<close>

text \<open>
  \<^verbatim>\<open>originPermissions.get(origin)?.includes(method) ?? false\<close>: a missing entry makes
  the optional chain \<^verbatim>\<open>undefined\<close>, which \<^verbatim>\<open>??\<close> turns into \<^verbatim>\<open>false\<close>; a present
  entry answers by membership in its array.
\<close>

definition hasPermission :: "(KeyringRpcMethod \<Rightarrow> string) \<Rightarrow> string \<Rightarrow> string \<Rightarrow> bool" where
  "hasPermission krm origin method =
     (case originPermissions krm origin of
        None \<Rightarrow> False
      | Some methods \<Rightarrow> method \<in> set methods)"

section \<open>Requests, failures and collaborators (index.ts)\<close>

text \<open>
  The request object a handler receives. \<^verbatim>\<open>index.ts\<close> reads its \<^verbatim>\<open>method\<close> and hands
  the object on as a whole; everything else it carries is \<open>params\<close>.
\<close>

record 'j request =
  "method" :: string
  params :: 'j

text \<open>
  What a handler can reject with: \<^verbatim>\<open>new Error(message)\<close>, the class
  \<^verbatim>\<open>MethodNotSupportedError\<close> of the keyring API constructed with a method name, or
  whatever a collaborator rejected with, passed through.
\<close>

datatype 'x error = Error string | MethodNotSupportedError string | Thrown 'x

text \<open>
  The argument of \<^verbatim>\<open>snap.request\<close> in \<^verbatim>\<open>getEntropy\<close> is
  \<^verbatim>\<open>{ method: 'snap_getEntropy', params: { version: 1 } }\<close>. The host's parameter object
  has an optional \<^verbatim>\<open>salt\<close>; an absent field is \<open>None\<close>.
\<close>

record entropy_params =
  version :: nat
  salt :: "string option"

text \<open>The argument of \<^verbatim>\<open>createAccount\<close>: \<^verbatim>\<open>{ privateKey: entropy }\<close>.\<close>

record createAccount_options =
  privateKey :: string

text \<open>
  Every call that leaves \<^verbatim>\<open>index.ts\<close> is recorded, in order, with its arguments. A
  \<^verbatim>\<open>SimpleKeyring\<close> object is named by its reference, a position in the heap below.
  The second argument of \<^verbatim>\<open>logger.debug\<close> is the JSON text of the request; the record
  keeps the request it renders.
\<close>

datatype 'j call =
    Call_logger_debug string "'j request"
  | Call_getState
  | Call_new_SimpleKeyring nat
  | Call_snap_request string entropy_params
  | Call_toggleSyncApprovals nat
  | Call_isSynchronousMode nat
  | Call_createAccount nat createAccount_options
  | Call_handleKeyringRequest nat "'j request"

text \<open>
  The collaborators, none of which is defined in \<^verbatim>\<open>index.ts\<close>: \<^verbatim>\<open>getState\<close>
  (\<^verbatim>\<open>./stateManagement\<close>), the constructor and the methods of \<^verbatim>\<open>SimpleKeyring\<close>
  (\<^verbatim>\<open>./keyring\<close>), \<^verbatim>\<open>snap.request\<close> (the host), \<^verbatim>\<open>remove0x\<close>
  (\<^verbatim>\<open>@metamask/utils\<close>) and \<^verbatim>\<open>handleKeyringRequest\<close>
  (\<^verbatim>\<open>@metamask/keyring-api\<close>). They are parameters. An asynchronous collaborator
  reads and changes the host's world \<open>'w\<close> and either rejects (\<open>Inl\<close>) or resolves
  (\<open>Inr\<close>); a method of the keyring object also reads and changes that object \<open>'k\<close>.
\<close>

record ('w, 'st, 'k, 'x, 'j) env =
  getState :: "'w \<Rightarrow> ('x + 'st) \<times> 'w"
  new_SimpleKeyring :: "'st \<Rightarrow> 'k"
  snap_request :: "string \<Rightarrow> entropy_params \<Rightarrow> 'w \<Rightarrow> ('x + string) \<times> 'w"
  remove0x :: "string \<Rightarrow> string"
  toggleSyncApprovals :: "'k \<Rightarrow> 'w \<Rightarrow> ('x + 'j) \<times> 'k \<times> 'w"
  isSynchronousMode :: "'k \<Rightarrow> 'w \<Rightarrow> ('x + 'j) \<times> 'k \<times> 'w"
  createAccount :: "createAccount_options \<Rightarrow> 'k \<Rightarrow> 'w \<Rightarrow> ('x + 'j) \<times> 'k \<times> 'w"
  handleKeyringRequest :: "'j request \<Rightarrow> 'k \<Rightarrow> 'w \<Rightarrow> ('x + 'j) \<times> 'k \<times> 'w"

text \<open>
  The state a handler runs in: the module variable \<^verbatim>\<open>let keyring: SimpleKeyring\<close>
  (\<^verbatim>\<open>undefined\<close> until assigned, a reference afterwards), the keyring objects
  constructed so far (\<^verbatim>\<open>new\<close> appends one, its reference is its position), the
  host's world, and the record of calls.
\<close>

record ('w, 'k, 'j) snap_state =
  keyring :: "nat option"
  heap :: "'k list"
  host :: 'w
  calls :: "'j call list"

definition initial_state :: "'w \<Rightarrow> ('w, 'k, 'j) snap_state" where
  "initial_state w = \<lparr>keyring = None, heap = [], host = w, calls = []\<rparr>"

section \<open>The backend accessor getKeyring (index.ts)\<close>

text \<open>
  \<^verbatim>\<open>getKeyring\<close> has one \<^verbatim>\<open>await\<close>. The code before it runs without interruption
  when the function is called: the first test of \<^verbatim>\<open>!keyring\<close> and, when the variable
  is unset, the call of \<^verbatim>\<open>getState()\<close>. The load is taken to happen at that call,
  its outcome being delivered when the \<^verbatim>\<open>await\<close> completes. The code after the
  \<^verbatim>\<open>await\<close> runs without interruption too: a rejected load is rethrown, otherwise
  the test is made again, the object constructed and assigned if the variable is still
  unset, and the variable returned.
\<close>

definition getKeyring_enter ::
  "('w, 'st, 'k, 'x, 'j) env \<Rightarrow> ('w, 'k, 'j) snap_state
   \<Rightarrow> (nat + ('x + 'st)) \<times> ('w, 'k, 'j) snap_state" where
  "getKeyring_enter env s =
     (case keyring s of
        Some k \<Rightarrow> (Inl k, s)
      | None \<Rightarrow>
          (let (loaded, w) = getState env (host s)
           in (Inr loaded, s\<lparr>host := w, calls := calls s @ [Call_getState]\<rparr>)))"

definition getKeyring_resume ::
  "('w, 'st, 'k, 'x, 'j) env \<Rightarrow> ('x + 'st) \<Rightarrow> ('w, 'k, 'j) snap_state
   \<Rightarrow> ('x error + nat) \<times> ('w, 'k, 'j) snap_state" where
  "getKeyring_resume env loaded s =
     (case loaded of
        Inl e \<Rightarrow> (Inl (Thrown e), s)
      | Inr state \<Rightarrow>
          (case keyring s of
             Some k \<Rightarrow> (Inr k, s)
           | None \<Rightarrow>
               (let k = length (heap s)
                in (Inr k, s\<lparr>keyring := Some k,
                              heap := heap s @ [new_SimpleKeyring env state],
                              calls := calls s @ [Call_new_SimpleKeyring k]\<rparr>))))"

text \<open>One call of \<^verbatim>\<open>getKeyring\<close> with nothing else running in between.\<close>

definition getKeyring ::
  "('w, 'st, 'k, 'x, 'j) env \<Rightarrow> ('w, 'k, 'j) snap_state
   \<Rightarrow> ('x error + nat) \<times> ('w, 'k, 'j) snap_state" where
  "getKeyring env s =
     (case getKeyring_enter env s of
        (Inl k, s1) \<Rightarrow> (Inr k, s1)
      | (Inr loaded, s1) \<Rightarrow> getKeyring_resume env loaded s1)"

subsection \<open>Overlapping calls\<close>

text \<open>
  Several calls of \<^verbatim>\<open>getKeyring\<close> in flight at once. Each caller is either not
  yet called, suspended at the \<^verbatim>\<open>await\<close> with the outcome of its load pending, or
  finished. A schedule names, step by step, the caller that runs next; a step runs that
  caller's code up to its next suspension or its end, as the cooperative execution of
  the host does.
\<close>

datatype ('x, 'st) caller = NotCalled | Awaiting "'x + 'st" | Returned nat | Rejected "'x error"

record ('w, 'st, 'k, 'x, 'j) config =
  shared :: "('w, 'k, 'j) snap_state"
  callers :: "('x, 'st) caller list"

definition advance ::
  "('w, 'st, 'k, 'x, 'j) env \<Rightarrow> nat \<Rightarrow> ('w, 'st, 'k, 'x, 'j) config
   \<Rightarrow> ('w, 'st, 'k, 'x, 'j) config" where
  "advance env i c =
     (if i < length (callers c) then
        (case callers c ! i of
           NotCalled \<Rightarrow>
             (case getKeyring_enter env (shared c) of
                (Inl k, s) \<Rightarrow> \<lparr>shared = s, callers = (callers c)[i := Returned k]\<rparr>
              | (Inr loaded, s) \<Rightarrow> \<lparr>shared = s, callers = (callers c)[i := Awaiting loaded]\<rparr>)
         | Awaiting loaded \<Rightarrow>
             (case getKeyring_resume env loaded (shared c) of
                (Inl e, s) \<Rightarrow> \<lparr>shared = s, callers = (callers c)[i := Rejected e]\<rparr>
              | (Inr k, s) \<Rightarrow> \<lparr>shared = s, callers = (callers c)[i := Returned k]\<rparr>)
         | Returned k \<Rightarrow> c
         | Rejected e \<Rightarrow> c)
      else c)"

definition interleave ::
  "('w, 'st, 'k, 'x, 'j) env \<Rightarrow> nat list \<Rightarrow> ('w, 'st, 'k, 'x, 'j) config
   \<Rightarrow> ('w, 'st, 'k, 'x, 'j) config" where
  "interleave env schedule c = fold (advance env) schedule c"

text \<open>A fresh process in which \<open>n\<close> calls of \<^verbatim>\<open>getKeyring\<close> are about to be made.\<close>

definition fresh :: "'w \<Rightarrow> nat \<Rightarrow> ('w, 'st, 'k, 'x, 'j) config" where
  "fresh w n = \<lparr>shared = initial_state w, callers = replicate n NotCalled\<rparr>"

section \<open>Entropy (index.ts)\<close>

definition getEntropy ::
  "('w, 'st, 'k, 'x, 'j) env \<Rightarrow> ('w, 'k, 'j) snap_state
   \<Rightarrow> ('x error + string) \<times> ('w, 'k, 'j) snap_state" where
  "getEntropy env s =
     (let (entropy, w) = snap_request env ''snap_getEntropy'' \<lparr>version = 1, salt = None\<rparr> (host s);
          s1 = s\<lparr>host := w,
                 calls := calls s @
                   [Call_snap_request ''snap_getEntropy'' \<lparr>version = 1, salt = None\<rparr>]\<rparr>
      in (case entropy of
            Inl e \<Rightarrow> (Inl (Thrown e), s1)
          | Inr hex \<Rightarrow> (Inr (remove0x env hex), s1)))"

section \<open>The two handlers (index.ts)\<close>

text \<open>A method of the keyring object \<open>k\<close>, or \<^verbatim>\<open>handleKeyringRequest\<close> on it.\<close>

definition invoke ::
  "('k \<Rightarrow> 'w \<Rightarrow> ('x + 'j) \<times> 'k \<times> 'w) \<Rightarrow> 'j call \<Rightarrow> nat \<Rightarrow> ('w, 'k, 'j) snap_state
   \<Rightarrow> ('x error + 'j) \<times> ('w, 'k, 'j) snap_state" where
  "invoke f c k s =
     (let (result, obj, w) = f (heap s ! k) (host s)
      in (case result of Inl e \<Rightarrow> Inl (Thrown e) | Inr v \<Rightarrow> Inr v,
          s\<lparr>heap := (heap s)[k := obj], host := w, calls := calls s @ [c]\<rparr>))"

definition logger_debug ::
  "string \<Rightarrow> 'j request \<Rightarrow> ('w, 'k, 'j) snap_state \<Rightarrow> ('w, 'k, 'j) snap_state" where
  "logger_debug message request s = s\<lparr>calls := calls s @ [Call_logger_debug message request]\<rparr>"

text \<open>\<^verbatim>\<open>`Origin '${origin}' is not allowed to call '${request.method}'`\<close>\<close>

definition not_allowed_message :: "string \<Rightarrow> string \<Rightarrow> string" where
  "not_allowed_message origin m =
     ''Origin '' @ [CHR 0x27] @ origin @ [CHR 0x27] @ '' is not allowed to call '' @
     [CHR 0x27] @ m @ [CHR 0x27]"

definition onRpcRequest ::
  "(KeyringRpcMethod \<Rightarrow> string) \<Rightarrow> ('w, 'st, 'k, 'x, 'j) env \<Rightarrow> string \<Rightarrow> 'j request
   \<Rightarrow> ('w, 'k, 'j) snap_state \<Rightarrow> ('x error + 'j) \<times> ('w, 'k, 'j) snap_state" where
  "onRpcRequest krm env origin request s =
     (let s0 = logger_debug (''RPC request (origin='' @ [CHR 0x22] @ origin @ [CHR 0x22] @ ''):'')
                 request s
      in if \<not> hasPermission krm origin (method request) then
           (Inl (Error (not_allowed_message origin (method request))), s0)
         else if method request = InternalMethod_value ToggleSyncApprovals then
           (case getKeyring env s0 of
              (Inl e, s1) \<Rightarrow> (Inl e, s1)
            | (Inr k, s1) \<Rightarrow> invoke (toggleSyncApprovals env) (Call_toggleSyncApprovals k) k s1)
         else if method request = InternalMethod_value IsSynchronousMode then
           (case getKeyring env s0 of
              (Inl e, s1) \<Rightarrow> (Inl e, s1)
            | (Inr k, s1) \<Rightarrow> invoke (isSynchronousMode env) (Call_isSynchronousMode k) k s1)
         else if method request = InternalMethod_value CreateAccountWithPrivateKey then
           (case getEntropy env s0 of
              (Inl e, s1) \<Rightarrow> (Inl e, s1)
            | (Inr entropy, s1) \<Rightarrow>
                (case getKeyring env s1 of
                   (Inl e, s2) \<Rightarrow> (Inl e, s2)
                 | (Inr k, s2) \<Rightarrow>
                     invoke (createAccount env \<lparr>privateKey = entropy\<rparr>)
                       (Call_createAccount k \<lparr>privateKey = entropy\<rparr>) k s2))
         else (Inl (MethodNotSupportedError (method request)), s0))"

definition onKeyringRequest ::
  "(KeyringRpcMethod \<Rightarrow> string) \<Rightarrow> ('w, 'st, 'k, 'x, 'j) env \<Rightarrow> string \<Rightarrow> 'j request
   \<Rightarrow> ('w, 'k, 'j) snap_state \<Rightarrow> ('x error + 'j) \<times> ('w, 'k, 'j) snap_state" where
  "onKeyringRequest krm env origin request s =
     (let s0 = logger_debug
                 (''Keyring request (origin='' @ [CHR 0x22] @ origin @ [CHR 0x22] @ ''):'')
                 request s
      in if \<not> hasPermission krm origin (method request) then
           (Inl (Error (not_allowed_message origin (method request))), s0)
         else
           (case getKeyring env s0 of
              (Inl e, s1) \<Rightarrow> (Inl e, s1)
            | (Inr k, s1) \<Rightarrow>
                invoke (handleKeyringRequest env request) (Call_handleKeyringRequest k request) k s1))"

section \<open>Calls delivered one after the other\<close>

text \<open>
  The host delivers a call to one of the two exported handlers. \<open>deliver_all\<close> runs a
  list of calls in order, each to its end before the next starts, and collects what they
  return. \<open>log_message\<close> is the first argument the handler gives \<^verbatim>\<open>logger.debug\<close>.
\<close>

datatype entry_point = OnRpcRequest | OnKeyringRequest

fun deliver ::
  "(KeyringRpcMethod \<Rightarrow> string) \<Rightarrow> ('w, 'st, 'k, 'x, 'j) env
   \<Rightarrow> entry_point \<times> string \<times> 'j request
   \<Rightarrow> ('w, 'k, 'j) snap_state \<Rightarrow> ('x error + 'j) \<times> ('w, 'k, 'j) snap_state" where
  "deliver krm env (OnRpcRequest, origin, request) s = onRpcRequest krm env origin request s"
| "deliver krm env (OnKeyringRequest, origin, request) s = onKeyringRequest krm env origin request s"

fun deliver_all ::
  "(KeyringRpcMethod \<Rightarrow> string) \<Rightarrow> ('w, 'st, 'k, 'x, 'j) env
   \<Rightarrow> (entry_point \<times> string \<times> 'j request) list
   \<Rightarrow> ('w, 'k, 'j) snap_state \<Rightarrow> ('x error + 'j) list \<times> ('w, 'k, 'j) snap_state" where
  "deliver_all krm env [] s = ([], s)"
| "deliver_all krm env (c # cs) s =
     (let (r, s1) = deliver krm env c s;
          (rs, s2) = deliver_all krm env cs s1
      in (r # rs, s2))"

fun log_message :: "entry_point \<Rightarrow> string \<Rightarrow> string" where
  "log_message OnRpcRequest origin =
     ''RPC request (origin='' @ [CHR 0x22] @ origin @ [CHR 0x22] @ ''):''"
| "log_message OnKeyringRequest origin =
     ''Keyring request (origin='' @ [CHR 0x22] @ origin @ [CHR 0x22] @ ''):''"

section \<open>Invariants of overlapping calls\<close>

text \<open>
  \<open>returned_inv\<close>: at most one keyring object exists, the variable is set exactly when
  it exists, and a caller that has returned holds the reference in the variable.
  \<open>loads_inv\<close>: the loads made so far and the callers still to be called are together
  no more than the callers.
\<close>

definition returned_inv :: "('w, 'st, 'k, 'x, 'j) config \<Rightarrow> bool" where
  "returned_inv c =
     (length (heap (shared c)) \<le> 1
      \<and> (keyring (shared c) = None \<longrightarrow> heap (shared c) = [])
      \<and> (\<forall>k. keyring (shared c) = Some k \<longrightarrow> k = 0 \<and> length (heap (shared c)) = 1)
      \<and> (\<forall>i k. i < length (callers c) \<and> callers c ! i = Returned k
            \<longrightarrow> keyring (shared c) = Some k))"

definition loads_inv :: "('w, 'st, 'k, 'x, 'j) config \<Rightarrow> bool" where
  "loads_inv c =
     (count_list (calls (shared c)) Call_getState + count_list (callers c) NotCalled
        \<le> length (callers c))"

section \<open>An instance of the collaborators\<close>

text \<open>
  A small instance on which the theorems are evaluated: the host's world counts the
  loads that will still fail, the keyring object is its synchronous-approvals flag, and
  results are strings.
\<close>

definition sample_env :: "(nat, nat, bool, string, string) env" where
  "sample_env =
     \<lparr>getState = (\<lambda>w. if w = 0 then (Inr 7, 0) else (Inl ''storage unavailable'', w - 1)),
      new_SimpleKeyring = (\<lambda>state. False),
      snap_request = (\<lambda>m p w. (Inr ''0x1f'', w)),
      remove0x = (\<lambda>hex. if take 2 hex = ''0x'' then drop 2 hex else hex),
      toggleSyncApprovals = (\<lambda>k w. (Inr ''null'', \<not> k, w)),
      isSynchronousMode = (\<lambda>k w. (Inr (if k then ''true'' else ''false''), k, w)),
      createAccount = (\<lambda>options k w. (Inr (privateKey options), k, w)),
      handleKeyringRequest = (\<lambda>request k w. (Inr (method request), k, w))\<rparr>"


section \<open>Facts about the table\<close>

lemma originPermissions_metamask:
  "originPermissions krm ''metamask'' =
     Some [krm ListAccounts, krm GetAccount, krm FilterAccountChains, krm DeleteAccount,
           krm ListRequests, krm GetRequest, krm SubmitRequest, krm RejectRequest]"
  by (simp add: originPermissions_def originPermissions_entries_def Map_new_def)

lemma originPermissions_localhost:
  "originPermissions krm ''http://localhost:8000'' =
     Some [krm ListAccounts, krm GetAccount, krm CreateAccount, krm FilterAccountChains,
           krm UpdateAccount, krm DeleteAccount, krm ExportAccount, krm ListRequests,
           krm GetRequest, krm ApproveRequest, krm RejectRequest,
           ''snap.internal.toggleSynchronousApprovals'',
           ''snap.internal.isSynchronousMode'',
           ''snap.internal.createAccountWithPrivateKey'']"
  by (simp add: originPermissions_def originPermissions_entries_def Map_new_def)

lemma originPermissions_github:
  "originPermissions krm ''https://metamask.github.io'' =
     Some [krm ListAccounts, krm GetAccount, krm CreateAccount, krm FilterAccountChains,
           krm UpdateAccount, krm DeleteAccount, krm ExportAccount, krm ListRequests,
           krm GetRequest, krm ApproveRequest, krm RejectRequest,
           ''snap.internal.toggleSynchronousApprovals'',
           ''snap.internal.isSynchronousMode'',
           ''snap.internal.createAccountWithPrivateKey'']"
  by (simp add: originPermissions_def originPermissions_entries_def Map_new_def)

lemma dom_originPermissions:
  "dom (originPermissions krm) =
     {''metamask'', ''http://localhost:8000'', ''https://metamask.github.io''}"
  by (auto simp: originPermissions_def originPermissions_entries_def Map_new_def
           split: if_splits)

lemma originPermissions_other:
  "origin \<notin> {''metamask'', ''http://localhost:8000'', ''https://metamask.github.io''}
   \<Longrightarrow> originPermissions krm origin = None"
  using dom_originPermissions [of krm] by blast

lemma distinct_names_keyring_api: "distinct_names keyring_api_names"
  by (simp add: distinct_names_def)

lemma hasPermission_iff:
  "hasPermission krm origin m \<longleftrightarrow>
     (\<exists>methods. originPermissions krm origin = Some methods \<and> m \<in> set methods)"
  by (simp add: hasPermission_def split: option.splits)

lemma hasPermission_other:
  "origin \<notin> {''metamask'', ''http://localhost:8000'', ''https://metamask.github.io''}
   \<Longrightarrow> \<not> hasPermission krm origin m"
proof -
  assume "origin \<notin> {''metamask'', ''http://localhost:8000'', ''https://metamask.github.io''}"
  then have "originPermissions krm origin = None"
    by (rule originPermissions_other)
  then show ?thesis
    by (simp add: hasPermission_def)
qed

lemma evil_not_permitted:
  "\<not> hasPermission krm ''https://evil.example'' m"
  by (rule hasPermission_other) simp

lemma metamask_CreateAccount:
  "distinct_names krm \<Longrightarrow> \<not> hasPermission krm ''metamask'' (krm CreateAccount)"
  by (auto simp: hasPermission_iff originPermissions_metamask distinct_names_def)

lemma metamask_GetRequest: "hasPermission krm ''metamask'' (krm GetRequest)"
  by (simp add: hasPermission_iff originPermissions_metamask)

lemma github_CreateAccountWithPrivateKey:
  "hasPermission krm ''https://metamask.github.io'' ''snap.internal.createAccountWithPrivateKey''"
  by (simp add: hasPermission_iff originPermissions_github)

section \<open>The permission check\<close>

text \<open>
  C1: for every origin and method, \<open>hasPermission\<close> is true exactly when the origin has
  an entry in the table and the method is a member of that entry's list; it is false for
  every origin other than the three configured ones, the empty string among them. It is a
  function of its two arguments alone: it takes no state and returns a truth value.
\<close>

theorem hasPermission_iff_listed:
  "(hasPermission krm origin m \<longleftrightarrow>
      (\<exists>methods. originPermissions krm origin = Some methods \<and> m \<in> set methods))
   \<and> (origin \<notin> {''metamask'', ''http://localhost:8000'', ''https://metamask.github.io''}
        \<longrightarrow> \<not> hasPermission krm origin m)
   \<and> \<not> hasPermission krm [] m"
proof -
  have "\<not> hasPermission krm [] m"
    by (rule hasPermission_other) simp
  with hasPermission_iff [of krm origin m] hasPermission_other [of origin krm m]
  show ?thesis by blast
qed

theorem hasPermission_iff_listed_witness:
  "''https://evil.example'' \<notin> {''metamask'', ''http://localhost:8000'', ''https://metamask.github.io''}
   \<and> \<not> hasPermission keyring_api_names ''https://evil.example'' ''keyring_listAccounts''"
proof -
  have h: "''https://evil.example'' \<notin> {''metamask'', ''http://localhost:8000'', ''https://metamask.github.io''}"
    by simp
  with hasPermission_iff_listed [of keyring_api_names "''https://evil.example''" "''keyring_listAccounts''"]
  show ?thesis by blast
qed

section \<open>Rejections\<close>

lemma unauthorized_onRpcRequest:
  "\<not> hasPermission krm origin (method request) \<Longrightarrow>
   onRpcRequest krm env origin request s =
     (Inl (Error (not_allowed_message origin (method request))),
      logger_debug (''RPC request (origin='' @ [CHR 0x22] @ origin @ [CHR 0x22] @ ''):'') request s)"
  by (simp add: onRpcRequest_def)

lemma unauthorized_onKeyringRequest:
  "\<not> hasPermission krm origin (method request) \<Longrightarrow>
   onKeyringRequest krm env origin request s =
     (Inl (Error (not_allowed_message origin (method request))),
      logger_debug (''Keyring request (origin='' @ [CHR 0x22] @ origin @ [CHR 0x22] @ ''):'') request s)"
  by (simp add: onKeyringRequest_def)

lemma unauthorized_deliver:
  "\<not> hasPermission krm origin (method request) \<Longrightarrow>
   deliver krm env (h, origin, request) s =
     (Inl (Error (not_allowed_message origin (method request))),
      s\<lparr>calls := calls s @ [Call_logger_debug (log_message h origin) request]\<rparr>)"
  by (cases h) (simp_all add: unauthorized_onRpcRequest unauthorized_onKeyringRequest logger_debug_def)

lemma unauthorized_deliver_all:
  "\<forall>(h, origin, request) \<in> set cs. \<not> hasPermission krm origin (method request) \<Longrightarrow>
   deliver_all krm env cs s =
     (map (\<lambda>(h, origin, request). Inl (Error (not_allowed_message origin (method request)))) cs,
      s\<lparr>calls := calls s @
            map (\<lambda>(h, origin, request). Call_logger_debug (log_message h origin) request) cs\<rparr>)"
proof (induction cs arbitrary: s)
  case Nil
  show ?case by simp
next
  case (Cons c cs)
  obtain h origin request where c: "c = (h, origin, request)"
    by (cases c) auto
  from Cons.prems c have no: "\<not> hasPermission krm origin (method request)"
    by simp
  from Cons.prems have rest: "\<forall>(h, origin, request) \<in> set cs. \<not> hasPermission krm origin (method request)"
    by simp
  show ?case
    by (simp add: c unauthorized_deliver [OF no] Cons.IH [OF rest])
qed

text \<open>
  C5: the table has exactly the three origins; \<^verbatim>\<open>metamask\<close> is given list, get,
  filter-chains and delete account and list, get, submit and reject request; the two
  other origins are each given the account methods, the approve set and the three custom
  methods; so \<^verbatim>\<open>metamask\<close> calling \<^verbatim>\<open>CreateAccount\<close> is rejected by both handlers
  with the authorization error.
\<close>

theorem originPermissions_contents:
  "dom (originPermissions krm) =
     {''metamask'', ''http://localhost:8000'', ''https://metamask.github.io''}
   \<and> originPermissions krm ''metamask'' =
       Some (map krm [ListAccounts, GetAccount, FilterAccountChains, DeleteAccount,
                      ListRequests, GetRequest, SubmitRequest, RejectRequest])
   \<and> originPermissions krm ''http://localhost:8000'' =
       Some (map krm [ListAccounts, GetAccount, CreateAccount, FilterAccountChains,
                      UpdateAccount, DeleteAccount, ExportAccount, ListRequests, GetRequest,
                      ApproveRequest, RejectRequest]
             @ map InternalMethod_value
                 [ToggleSyncApprovals, IsSynchronousMode, CreateAccountWithPrivateKey])
   \<and> originPermissions krm ''https://metamask.github.io'' =
       Some (map krm [ListAccounts, GetAccount, CreateAccount, FilterAccountChains,
                      UpdateAccount, DeleteAccount, ExportAccount, ListRequests, GetRequest,
                      ApproveRequest, RejectRequest]
             @ map InternalMethod_value
                 [ToggleSyncApprovals, IsSynchronousMode, CreateAccountWithPrivateKey])
   \<and> (distinct_names krm \<longrightarrow>
        \<not> hasPermission krm ''metamask'' (krm CreateAccount)
        \<and> fst (onRpcRequest krm env ''metamask'' \<lparr>method = krm CreateAccount, params = p\<rparr> s)
            = Inl (Error (not_allowed_message ''metamask'' (krm CreateAccount)))
        \<and> fst (onKeyringRequest krm env ''metamask'' \<lparr>method = krm CreateAccount, params = p\<rparr> s)
            = Inl (Error (not_allowed_message ''metamask'' (krm CreateAccount))))"
proof -
  have a: "originPermissions krm ''metamask'' =
       Some (map krm [ListAccounts, GetAccount, FilterAccountChains, DeleteAccount,
                      ListRequests, GetRequest, SubmitRequest, RejectRequest])"
    by (simp add: originPermissions_metamask)
  have b: "originPermissions krm ''http://localhost:8000'' =
       Some (map krm [ListAccounts, GetAccount, CreateAccount, FilterAccountChains,
                      UpdateAccount, DeleteAccount, ExportAccount, ListRequests, GetRequest,
                      ApproveRequest, RejectRequest]
             @ map InternalMethod_value
                 [ToggleSyncApprovals, IsSynchronousMode, CreateAccountWithPrivateKey])"
    by (simp add: originPermissions_localhost)
  have c: "originPermissions krm ''https://metamask.github.io'' =
       Some (map krm [ListAccounts, GetAccount, CreateAccount, FilterAccountChains,
                      UpdateAccount, DeleteAccount, ExportAccount, ListRequests, GetRequest,
                      ApproveRequest, RejectRequest]
             @ map InternalMethod_value
                 [ToggleSyncApprovals, IsSynchronousMode, CreateAccountWithPrivateKey])"
    by (simp add: originPermissions_github)
  have d: "distinct_names krm \<longrightarrow>
        \<not> hasPermission krm ''metamask'' (krm CreateAccount)
        \<and> fst (onRpcRequest krm env ''metamask'' \<lparr>method = krm CreateAccount, params = p\<rparr> s)
            = Inl (Error (not_allowed_message ''metamask'' (krm CreateAccount)))
        \<and> fst (onKeyringRequest krm env ''metamask'' \<lparr>method = krm CreateAccount, params = p\<rparr> s)
            = Inl (Error (not_allowed_message ''metamask'' (krm CreateAccount)))"
    by (simp add: metamask_CreateAccount unauthorized_onRpcRequest unauthorized_onKeyringRequest)
  from dom_originPermissions [of krm] a b c d show ?thesis by blast
qed

theorem originPermissions_contents_witness:
  "distinct_names keyring_api_names
   \<and> \<not> hasPermission keyring_api_names ''metamask'' ''keyring_createAccount''
   \<and> fst (onRpcRequest keyring_api_names sample_env ''metamask''
            \<lparr>method = ''keyring_createAccount'', params = ''{}''\<rparr> (initial_state 0))
       = Inl (Error (''Origin 'metamask' is not allowed to call 'keyring_createAccount'' @ [CHR 0x27]))
   \<and> fst (onKeyringRequest keyring_api_names sample_env ''metamask''
            \<lparr>method = ''keyring_createAccount'', params = ''{}''\<rparr> (initial_state 0))
       = Inl (Error (''Origin 'metamask' is not allowed to call 'keyring_createAccount'' @ [CHR 0x27]))"
proof -
  have n: "keyring_api_names CreateAccount = ''keyring_createAccount''"
    by simp
  have m: "not_allowed_message ''metamask'' ''keyring_createAccount'' =
             ''Origin 'metamask' is not allowed to call 'keyring_createAccount'' @ [CHR 0x27]"
    by (simp add: not_allowed_message_def)
  from originPermissions_contents
         [of keyring_api_names sample_env "''{}''" "initial_state 0", unfolded n m]
       distinct_names_keyring_api
  show ?thesis
    by blast
qed

text \<open>
  C2: when the permission check fails, either handler fails with the authorization error
  that names the origin and the method,
  \<^verbatim>\<open>Origin '<origin>' is not allowed to call '<method>'\<close>, and nothing else is invoked: however many such
  calls are delivered, to either handler, the variable, the keyring objects and the host's
  world are as before, and the only calls made are the handlers' own \<^verbatim>\<open>logger.debug\<close>.
  No keyring is constructed and neither \<^verbatim>\<open>getState\<close>, \<^verbatim>\<open>snap.request\<close> nor a
  backend method is called.
\<close>

theorem unauthorized_invokes_nothing:
  assumes "\<forall>(h, origin, request) \<in> set cs. \<not> hasPermission krm origin (method request)"
  shows "fst (deliver_all krm env cs s) =
           map (\<lambda>(h, origin, request).
                  Inl (Error (''Origin '' @ [CHR 0x27] @ origin @ [CHR 0x27] @
                              '' is not allowed to call '' @ [CHR 0x27] @ method request @
                              [CHR 0x27]))) cs
         \<and> keyring (snd (deliver_all krm env cs s)) = keyring s
         \<and> heap (snd (deliver_all krm env cs s)) = heap s
         \<and> host (snd (deliver_all krm env cs s)) = host s
         \<and> calls (snd (deliver_all krm env cs s)) =
             calls s @ map (\<lambda>(h, origin, request). Call_logger_debug (log_message h origin) request) cs"
  by (simp add: unauthorized_deliver_all [OF assms] not_allowed_message_def)

theorem unauthorized_invokes_nothing_witness:
  "fst (deliver_all keyring_api_names sample_env
          [(OnKeyringRequest, ''https://evil.example'', \<lparr>method = ''keyring_listAccounts'', params = ''{}''\<rparr>),
           (OnKeyringRequest, ''https://evil.example'', \<lparr>method = ''keyring_listAccounts'', params = ''{}''\<rparr>),
           (OnRpcRequest, ''https://evil.example'', \<lparr>method = ''snap.internal.isSynchronousMode'', params = ''{}''\<rparr>)]
          (initial_state 0)) =
     [Inl (Error (''Origin 'https://evil.example' is not allowed to call 'keyring_listAccounts'' @
                  [CHR 0x27])),
      Inl (Error (''Origin 'https://evil.example' is not allowed to call 'keyring_listAccounts'' @
                  [CHR 0x27])),
      Inl (Error (''Origin 'https://evil.example' is not allowed to call 'snap.internal.isSynchronousMode'' @
                  [CHR 0x27]))]
   \<and> heap (snd (deliver_all keyring_api_names sample_env
          [(OnKeyringRequest, ''https://evil.example'', \<lparr>method = ''keyring_listAccounts'', params = ''{}''\<rparr>),
           (OnKeyringRequest, ''https://evil.example'', \<lparr>method = ''keyring_listAccounts'', params = ''{}''\<rparr>),
           (OnRpcRequest, ''https://evil.example'', \<lparr>method = ''snap.internal.isSynchronousMode'', params = ''{}''\<rparr>)]
          (initial_state 0))) = []
   \<and> keyring (snd (deliver_all keyring_api_names sample_env
          [(OnKeyringRequest, ''https://evil.example'', \<lparr>method = ''keyring_listAccounts'', params = ''{}''\<rparr>),
           (OnKeyringRequest, ''https://evil.example'', \<lparr>method = ''keyring_listAccounts'', params = ''{}''\<rparr>),
           (OnRpcRequest, ''https://evil.example'', \<lparr>method = ''snap.internal.isSynchronousMode'', params = ''{}''\<rparr>)]
          (initial_state 0))) = None
   \<and> calls (snd (deliver_all keyring_api_names sample_env
          [(OnKeyringRequest, ''https://evil.example'', \<lparr>method = ''keyring_listAccounts'', params = ''{}''\<rparr>),
           (OnKeyringRequest, ''https://evil.example'', \<lparr>method = ''keyring_listAccounts'', params = ''{}''\<rparr>),
           (OnRpcRequest, ''https://evil.example'', \<lparr>method = ''snap.internal.isSynchronousMode'', params = ''{}''\<rparr>)]
          (initial_state 0))) =
       [Call_logger_debug (''Keyring request (origin='' @ [CHR 0x22] @ ''https://evil.example'' @ [CHR 0x22] @ ''):'')
          \<lparr>method = ''keyring_listAccounts'', params = ''{}''\<rparr>,
        Call_logger_debug (''Keyring request (origin='' @ [CHR 0x22] @ ''https://evil.example'' @ [CHR 0x22] @ ''):'')
          \<lparr>method = ''keyring_listAccounts'', params = ''{}''\<rparr>,
        Call_logger_debug (''RPC request (origin='' @ [CHR 0x22] @ ''https://evil.example'' @ [CHR 0x22] @ ''):'')
          \<lparr>method = ''snap.internal.isSynchronousMode'', params = ''{}''\<rparr>]"
proof -
  let ?cs = "[(OnKeyringRequest, ''https://evil.example'', \<lparr>method = ''keyring_listAccounts'', params = ''{}''\<rparr>),
           (OnKeyringRequest, ''https://evil.example'', \<lparr>method = ''keyring_listAccounts'', params = ''{}''\<rparr>),
           (OnRpcRequest, ''https://evil.example'', \<lparr>method = ''snap.internal.isSynchronousMode'', params = ''{}''\<rparr>)]"
  have h: "\<forall>(h, origin, request) \<in> set ?cs. \<not> hasPermission keyring_api_names origin (method request)"
    by (simp add: evil_not_permitted)
  from unauthorized_invokes_nothing [OF h, of sample_env "initial_state 0"]
  show ?thesis
    by (simp add: initial_state_def)
qed

text \<open>
  C10: on an unauthorized call both handlers throw a plain \<^verbatim>\<open>Error\<close>, not a
  \<^verbatim>\<open>MethodNotSupportedError\<close>, with the same message
  \<^verbatim>\<open>Origin '<origin>' is not allowed to call '<method>'\<close>; the two rejections are equal.
\<close>

theorem unauthorized_plain_Error:
  assumes "\<not> hasPermission krm origin (method request)"
  shows "fst (onRpcRequest krm env origin request s) =
           Inl (Error (''Origin '' @ [CHR 0x27] @ origin @ [CHR 0x27] @
                       '' is not allowed to call '' @ [CHR 0x27] @ method request @ [CHR 0x27]))
         \<and> fst (onKeyringRequest krm env origin request s) =
             fst (onRpcRequest krm env origin request s)
         \<and> fst (onRpcRequest krm env origin request s) \<noteq> Inl (MethodNotSupportedError m)
         \<and> fst (onKeyringRequest krm env origin request s) \<noteq> Inl (MethodNotSupportedError m)"
  by (simp add: unauthorized_onRpcRequest [OF assms] unauthorized_onKeyringRequest [OF assms]
        not_allowed_message_def)

theorem unauthorized_plain_Error_witness:
  "fst (onRpcRequest keyring_api_names sample_env ''https://evil.example''
          \<lparr>method = ''keyring_listAccounts'', params = ''{}''\<rparr> (initial_state 0)) =
     Inl (Error (''Origin 'https://evil.example' is not allowed to call 'keyring_listAccounts'' @ [CHR 0x27]))
   \<and> fst (onKeyringRequest keyring_api_names sample_env ''https://evil.example''
          \<lparr>method = ''keyring_listAccounts'', params = ''{}''\<rparr> (initial_state 0)) =
     Inl (Error (''Origin 'https://evil.example' is not allowed to call 'keyring_listAccounts'' @ [CHR 0x27]))"
proof -
  have h: "\<not> hasPermission keyring_api_names ''https://evil.example''
             (method \<lparr>method = ''keyring_listAccounts'', params = ''{}''\<rparr>)"
    by (rule evil_not_permitted)
  from unauthorized_plain_Error [OF h, of sample_env "initial_state 0"]
  show ?thesis
    by simp
qed

section \<open>The generic-call handler\<close>

text \<open>
  C6: an authorized call to \<open>onRpcRequest\<close> whose method is none of the three custom
  methods fails with \<^verbatim>\<open>MethodNotSupportedError\<close> naming the method, and nothing but the
  log call is made; a keyring method permitted for the origin is such a method, so it is
  not routed to the backend.
\<close>

theorem authorized_unmatched_method:
  assumes "hasPermission krm origin (method request)"
    and "method request \<noteq> InternalMethod_value ToggleSyncApprovals"
    and "method request \<noteq> InternalMethod_value IsSynchronousMode"
    and "method request \<noteq> InternalMethod_value CreateAccountWithPrivateKey"
  shows "onRpcRequest krm env origin request s =
           (Inl (MethodNotSupportedError (method request)),
            s\<lparr>calls := calls s @ [Call_logger_debug (log_message OnRpcRequest origin) request]\<rparr>)"
  using assms by (simp add: onRpcRequest_def logger_debug_def)

theorem authorized_unmatched_method_witness:
  "hasPermission keyring_api_names ''metamask'' ''keyring_getRequest''
   \<and> onRpcRequest keyring_api_names sample_env ''metamask''
         \<lparr>method = ''keyring_getRequest'', params = ''{}''\<rparr> (initial_state 0) =
       (Inl (MethodNotSupportedError ''keyring_getRequest''),
        \<lparr>keyring = None, heap = [], host = 0,
         calls = [Call_logger_debug (log_message OnRpcRequest ''metamask'')
                    \<lparr>method = ''keyring_getRequest'', params = ''{}''\<rparr>]\<rparr>)"
proof -
  have h: "hasPermission keyring_api_names ''metamask'' ''keyring_getRequest''"
    using metamask_GetRequest [of keyring_api_names] by simp
  have "onRpcRequest keyring_api_names sample_env ''metamask''
         \<lparr>method = ''keyring_getRequest'', params = ''{}''\<rparr> (initial_state 0) =
       (Inl (MethodNotSupportedError ''keyring_getRequest''),
        \<lparr>keyring = None, heap = [], host = 0,
         calls = [Call_logger_debug (log_message OnRpcRequest ''metamask'')
                    \<lparr>method = ''keyring_getRequest'', params = ''{}''\<rparr>]\<rparr>)"
    using authorized_unmatched_method
            [of keyring_api_names "''metamask''"
                "\<lparr>method = ''keyring_getRequest'', params = ''{}''\<rparr>" sample_env "initial_state 0"]
          h
    by (simp add: initial_state_def)
  with h show ?thesis by blast
qed

lemma getKeyring_cached: "keyring s = Some k \<Longrightarrow> getKeyring env s = (Inr k, s)"
  by (simp add: getKeyring_def getKeyring_enter_def)

lemma calls_getKeyring: "\<exists>more. calls (snd (getKeyring env s)) = calls s @ more"
  by (simp add: getKeyring_def getKeyring_enter_def getKeyring_resume_def Let_def
        split: option.splits prod.splits sum.splits)

lemma calls_invoke: "calls (snd (invoke f c k s)) = calls s @ [c]"
  by (simp add: invoke_def split: prod.splits)

lemma calls_getEntropy:
  "calls (snd (getEntropy env s)) =
     calls s @ [Call_snap_request ''snap_getEntropy'' \<lparr>version = 1, salt = None\<rparr>]"
  by (simp add: getEntropy_def Let_def split: prod.splits sum.splits)

text \<open>
  C3: the claim has \<open>getEntropy\<close> ask the host for entropy with the salt
  \<^verbatim>\<open>Signing key\<close>. For an origin that may call
  \<^verbatim>\<open>snap.internal.createAccountWithPrivateKey\<close>, the call that follows the log call is
  \<^verbatim>\<open>snap.request\<close> with method \<^verbatim>\<open>snap_getEntropy\<close>, version 1 and no salt at all,
  whatever the collaborators and the state are.
\<close>

theorem createAccountWithPrivateKey_entropy_request:
  "\<exists>more.
     calls (snd (onRpcRequest krm env ''https://metamask.github.io''
                   \<lparr>method = ''snap.internal.createAccountWithPrivateKey'', params = p\<rparr> s)) =
       calls s @
       [Call_logger_debug (log_message OnRpcRequest ''https://metamask.github.io'')
          \<lparr>method = ''snap.internal.createAccountWithPrivateKey'', params = p\<rparr>,
        Call_snap_request ''snap_getEntropy'' \<lparr>version = 1, salt = None\<rparr>] @ more"
proof -
  let ?request = "\<lparr>method = ''snap.internal.createAccountWithPrivateKey'', params = p\<rparr>"
  let ?s0 = "logger_debug (log_message OnRpcRequest ''https://metamask.github.io'') ?request s"
  have unfold: "onRpcRequest krm env ''https://metamask.github.io'' ?request s =
     (case getEntropy env ?s0 of
        (Inl e, s1) \<Rightarrow> (Inl e, s1)
      | (Inr entropy, s1) \<Rightarrow>
          (case getKeyring env s1 of
             (Inl e, s2) \<Rightarrow> (Inl e, s2)
           | (Inr k, s2) \<Rightarrow>
               invoke (createAccount env \<lparr>privateKey = entropy\<rparr>)
                 (Call_createAccount k \<lparr>privateKey = entropy\<rparr>) k s2))"
    using github_CreateAccountWithPrivateKey [of krm]
    by (simp add: onRpcRequest_def)
  obtain r1 s1 where e: "getEntropy env ?s0 = (r1, s1)"
    by (cases "getEntropy env ?s0")
  then have c1: "calls s1 = calls s @
       [Call_logger_debug (log_message OnRpcRequest ''https://metamask.github.io'') ?request,
        Call_snap_request ''snap_getEntropy'' \<lparr>version = 1, salt = None\<rparr>]"
    using calls_getEntropy [of env ?s0] by (simp add: logger_debug_def)
  show ?thesis
  proof (cases r1)
    case (Inl x)
    with unfold e c1 show ?thesis by simp
  next
    case (Inr entropy)
    obtain r2 s2 where k: "getKeyring env s1 = (r2, s2)"
      by (cases "getKeyring env s1")
    from calls_getKeyring [of env s1] k obtain more where c2: "calls s2 = calls s1 @ more"
      by auto
    show ?thesis
    proof (cases r2)
      case (Inl x)
      with unfold e Inr k c1 c2 show ?thesis by simp
    next
      case (Inr key)
      with unfold e \<open>r1 = Inr entropy\<close> k c1 c2 show ?thesis
        by (simp add: calls_invoke)
    qed
  qed
qed

text \<open>
  The rest of that path: the host's answer goes through \<^verbatim>\<open>remove0x\<close> and is the
  \<^verbatim>\<open>privateKey\<close> given to \<^verbatim>\<open>createAccount\<close>, whose outcome is the handler's.
\<close>

lemma createAccountWithPrivateKey_passes_entropy:
  assumes "snap_request env ''snap_getEntropy'' \<lparr>version = 1, salt = None\<rparr> (host s) = (Inr hex, w)"
    and "keyring s = Some k"
  shows "onRpcRequest krm env ''https://metamask.github.io''
           \<lparr>method = ''snap.internal.createAccountWithPrivateKey'', params = p\<rparr> s =
         invoke (createAccount env \<lparr>privateKey = remove0x env hex\<rparr>)
           (Call_createAccount k \<lparr>privateKey = remove0x env hex\<rparr>) k
           (s\<lparr>host := w,
              calls := calls s @
                [Call_logger_debug (log_message OnRpcRequest ''https://metamask.github.io'')
                   \<lparr>method = ''snap.internal.createAccountWithPrivateKey'', params = p\<rparr>,
                 Call_snap_request ''snap_getEntropy'' \<lparr>version = 1, salt = None\<rparr>]\<rparr>)"
  using assms github_CreateAccountWithPrivateKey [of krm]
  by (simp add: onRpcRequest_def logger_debug_def getEntropy_def getKeyring_cached)

section \<open>The keyring-call handler\<close>

text \<open>
  C7: an authorized call to \<open>onKeyringRequest\<close> obtains the keyring through
  \<open>getKeyring\<close> and gives it, with the request as received, to
  \<^verbatim>\<open>handleKeyringRequest\<close>; what that resolves to is returned and what it rejects with
  is passed on as it is. The method is read for the permission check only.
\<close>

theorem onKeyringRequest_forwards:
  assumes "hasPermission krm origin (method request)"
  shows "onKeyringRequest krm env origin request s =
     (case getKeyring env
             (s\<lparr>calls := calls s @
                   [Call_logger_debug (log_message OnKeyringRequest origin) request]\<rparr>) of
        (Inl e, s1) \<Rightarrow> (Inl e, s1)
      | (Inr k, s1) \<Rightarrow>
          (case handleKeyringRequest env request (heap s1 ! k) (host s1) of
             (result, obj, w) \<Rightarrow>
               (case result of Inl e \<Rightarrow> Inl (Thrown e) | Inr v \<Rightarrow> Inr v,
                s1\<lparr>heap := (heap s1)[k := obj], host := w,
                   calls := calls s1 @ [Call_handleKeyringRequest k request]\<rparr>)))"
  using assms
  by (simp add: onKeyringRequest_def logger_debug_def invoke_def split: prod.splits sum.splits)

theorem onKeyringRequest_forwards_witness:
  "hasPermission keyring_api_names ''metamask'' ''keyring_getRequest''
   \<and> onKeyringRequest keyring_api_names sample_env ''metamask''
         \<lparr>method = ''keyring_getRequest'', params = ''{}''\<rparr> (initial_state 0) =
       (Inr ''keyring_getRequest'',
        \<lparr>keyring = Some 0, heap = [False], host = 0,
         calls = [Call_logger_debug (log_message OnKeyringRequest ''metamask'')
                    \<lparr>method = ''keyring_getRequest'', params = ''{}''\<rparr>,
                  Call_getState, Call_new_SimpleKeyring 0,
                  Call_handleKeyringRequest 0
                    \<lparr>method = ''keyring_getRequest'', params = ''{}''\<rparr>]\<rparr>)"
proof -
  have h: "hasPermission keyring_api_names ''metamask'' ''keyring_getRequest''"
    using metamask_GetRequest [of keyring_api_names] by simp
  have "onKeyringRequest keyring_api_names sample_env ''metamask''
         \<lparr>method = ''keyring_getRequest'', params = ''{}''\<rparr> (initial_state 0) =
       (Inr ''keyring_getRequest'',
        \<lparr>keyring = Some 0, heap = [False], host = 0,
         calls = [Call_logger_debug (log_message OnKeyringRequest ''metamask'')
                    \<lparr>method = ''keyring_getRequest'', params = ''{}''\<rparr>,
                  Call_getState, Call_new_SimpleKeyring 0,
                  Call_handleKeyringRequest 0
                    \<lparr>method = ''keyring_getRequest'', params = ''{}''\<rparr>]\<rparr>)"
    using onKeyringRequest_forwards
            [of keyring_api_names "''metamask''"
                "\<lparr>method = ''keyring_getRequest'', params = ''{}''\<rparr>" sample_env "initial_state 0"]
          h
    by (simp add: initial_state_def getKeyring_def getKeyring_enter_def getKeyring_resume_def
          sample_env_def)
  with h show ?thesis by blast
qed

section \<open>The backend accessor\<close>


text \<open>
  A reference that \<open>getKeyring\<close> returns is the one in the variable and names an object
  that exists, provided the variable named one, if any, before the call: the reads of the
  heap in \<open>invoke\<close> are in range.
\<close>

lemma getKeyring_reference:
  assumes "\<forall>k. keyring s = Some k \<longrightarrow> k < length (heap s)"
    and "getKeyring env s = (Inr k, s')"
  shows "keyring s' = Some k \<and> k < length (heap s')"
  using assms
  by (auto simp: getKeyring_def getKeyring_enter_def getKeyring_resume_def Let_def
           split: option.splits prod.splits sum.splits)

text \<open>
  C8: when the load fails on a first access, \<open>getKeyring\<close> rejects with the load's
  failure as it is, the variable stays unset and no keyring object is made; the same
  holds when the failure arrives at a suspended caller. A later call loads again and,
  when that load succeeds, constructs the keyring from it.
\<close>

theorem getKeyring_load_failure:
  assumes "keyring s = None" and "getState env (host s) = (Inl e, w)"
  shows "getKeyring env s = (Inl (Thrown e), s\<lparr>host := w, calls := calls s @ [Call_getState]\<rparr>)
         \<and> keyring (snd (getKeyring env s)) = None
         \<and> heap (snd (getKeyring env s)) = heap s
         \<and> getKeyring_resume env (Inl e) s = (Inl (Thrown e), s)
         \<and> (\<forall>state w'. getState env w = (Inr state, w') \<longrightarrow>
               getKeyring env (snd (getKeyring env s)) =
                 (Inr (length (heap s)),
                  s\<lparr>keyring := Some (length (heap s)),
                    heap := heap s @ [new_SimpleKeyring env state],
                    host := w',
                    calls := calls s @ [Call_getState, Call_getState,
                                        Call_new_SimpleKeyring (length (heap s))]\<rparr>))"
  using assms
  by (simp add: getKeyring_def getKeyring_enter_def getKeyring_resume_def Let_def)

theorem getKeyring_load_failure_witness:
  "keyring (initial_state (1::nat) :: (nat, bool, string) snap_state) = None
   \<and> getState sample_env (host (initial_state (1::nat) :: (nat, bool, string) snap_state))
       = (Inl ''storage unavailable'', 0)
   \<and> getKeyring sample_env (initial_state 1) =
       (Inl (Thrown ''storage unavailable''),
        \<lparr>keyring = None, heap = [], host = 0, calls = [Call_getState]\<rparr>)
   \<and> getKeyring sample_env (snd (getKeyring sample_env (initial_state 1))) =
       (Inr 0, \<lparr>keyring = Some 0, heap = [False], host = 0,
                calls = [Call_getState, Call_getState, Call_new_SimpleKeyring 0]\<rparr>)"
proof -
  have a: "keyring (initial_state (1::nat) :: (nat, bool, string) snap_state) = None"
    by (simp add: initial_state_def)
  have b: "getState sample_env (host (initial_state (1::nat) :: (nat, bool, string) snap_state))
             = (Inl ''storage unavailable'', 0)"
    by (simp add: initial_state_def sample_env_def)
  have c: "getState sample_env 0 = (Inr 7, 0)"
    by (simp add: sample_env_def)
  have d: "new_SimpleKeyring sample_env 7 = False"
    by (simp add: sample_env_def)
  note t = getKeyring_load_failure [OF a b]
  from t have e: "getKeyring sample_env (initial_state 1) =
       (Inl (Thrown ''storage unavailable''),
        \<lparr>keyring = None, heap = [], host = 0, calls = [Call_getState]\<rparr>)"
    by (simp add: initial_state_def)
  note t [THEN conjunct2, THEN conjunct2, THEN conjunct2, THEN conjunct2, rule_format, OF c]
  then have f: "getKeyring sample_env (snd (getKeyring sample_env (initial_state 1))) =
       (Inr 0, \<lparr>keyring = Some 0, heap = [False], host = 0,
                calls = [Call_getState, Call_getState, Call_new_SimpleKeyring 0]\<rparr>)"
    by (simp add: initial_state_def d)
  from a b e f show ?thesis
    by blast
qed


subsection \<open>Every interleaving\<close>

lemma count_list_update_same:
  "i < length xs \<Longrightarrow> xs ! i = a \<Longrightarrow> b \<noteq> a \<Longrightarrow> Suc (count_list (xs[i := b]) a) = count_list xs a"
  by (induction xs arbitrary: i) (auto simp: nth_Cons split: nat.splits)

lemma count_list_update_other:
  "xs ! i \<noteq> a \<Longrightarrow> b \<noteq> a \<Longrightarrow> count_list (xs[i := b]) a = count_list xs a"
  by (induction xs arbitrary: i) (auto simp: nth_Cons split: nat.splits)

lemma count_list_replicate_same: "count_list (replicate n a) a = n"
  by (induction n) simp_all

lemma returned_inv_fresh: "returned_inv (fresh w n)"
  by (simp add: returned_inv_def fresh_def initial_state_def)

lemma loads_inv_fresh: "loads_inv (fresh w n)"
  by (simp add: loads_inv_def fresh_def initial_state_def count_list_replicate_same)

lemma returned_inv_advance:
  assumes "returned_inv c"
  shows "returned_inv (advance env i c)"
proof (cases "i < length (callers c)")
  case False
  with assms show ?thesis by (simp add: advance_def)
next
  case True
  show ?thesis
  proof (cases "callers c ! i")
    case NotCalled
    with True assms show ?thesis
      by (auto simp: advance_def returned_inv_def getKeyring_enter_def nth_list_update
               split: option.splits prod.splits)
  next
    case (Awaiting loaded)
    with True assms show ?thesis
      by (auto simp: advance_def returned_inv_def getKeyring_resume_def nth_list_update Let_def
               split: option.splits prod.splits sum.splits)
  next
    case (Returned k)
    with True assms show ?thesis by (simp add: advance_def)
  next
    case (Rejected e)
    with True assms show ?thesis by (simp add: advance_def)
  qed
qed

lemma loads_inv_advance:
  assumes "loads_inv c"
  shows "loads_inv (advance env i c)"
proof (cases "i < length (callers c)")
  case False
  with assms show ?thesis by (simp add: advance_def)
next
  case True
  show ?thesis
  proof (cases "callers c ! i")
    case NotCalled
    from True NotCalled have a: "\<And>b. b \<noteq> NotCalled \<Longrightarrow>
        count_list ((callers c)[i := b]) NotCalled = count_list (callers c) NotCalled - 1"
      using count_list_update_same [of i "callers c" NotCalled] by fastforce
    from True NotCalled have b: "0 < count_list (callers c) NotCalled"
      using count_list_update_same [of i "callers c" NotCalled "Returned 0"] by simp
    from a b True NotCalled assms show ?thesis
      by (auto simp: advance_def loads_inv_def getKeyring_enter_def
               split: option.splits prod.splits)
  next
    case (Awaiting loaded)
    then have a: "\<And>b. b \<noteq> NotCalled \<Longrightarrow>
        count_list ((callers c)[i := b]) NotCalled = count_list (callers c) NotCalled"
      by (simp add: count_list_update_other)
    with True Awaiting assms show ?thesis
      by (auto simp: advance_def loads_inv_def getKeyring_resume_def Let_def
               split: option.splits prod.splits sum.splits)
  next
    case (Returned k)
    with True assms show ?thesis by (simp add: advance_def)
  next
    case (Rejected e)
    with True assms show ?thesis by (simp add: advance_def)
  qed
qed

lemma length_callers_advance: "length (callers (advance env i c)) = length (callers c)"
  by (simp add: advance_def split: caller.splits prod.splits sum.splits)

lemma returned_inv_interleave:
  "returned_inv c \<Longrightarrow> returned_inv (interleave env schedule c)"
  unfolding interleave_def
  by (induction schedule arbitrary: c) (simp_all add: returned_inv_advance)

lemma loads_inv_interleave:
  "loads_inv c \<Longrightarrow> loads_inv (interleave env schedule c)"
  unfolding interleave_def
  by (induction schedule arbitrary: c) (simp_all add: loads_inv_advance)

lemma length_callers_interleave:
  "length (callers (interleave env schedule c)) = length (callers c)"
  unfolding interleave_def
  by (induction schedule arbitrary: c) (simp_all add: length_callers_advance)

lemma returned_inv_heap: "returned_inv c \<Longrightarrow> length (heap (shared c)) \<le> 1"
  by (simp add: returned_inv_def)

lemma returned_inv_Returned:
  "returned_inv c \<Longrightarrow> i < length (callers c) \<Longrightarrow> callers c ! i = Returned k \<Longrightarrow>
   keyring (shared c) = Some k \<and> length (heap (shared c)) = 1"
  unfolding returned_inv_def by blast

lemma loads_inv_count:
  "loads_inv c \<Longrightarrow> count_list (calls (shared c)) Call_getState \<le> length (callers c)"
  by (simp add: loads_inv_def)

lemma overlap_sample:
  "interleave sample_env [0, 1, 0, 1] (fresh 0 2) =
     \<lparr>shared = \<lparr>keyring = Some 0, heap = [False], host = 0,
                calls = [Call_getState, Call_getState, Call_new_SimpleKeyring 0]\<rparr>,
      callers = [Returned 0, Returned 0]\<rparr>"
  by (simp add: interleave_def fresh_def initial_state_def advance_def getKeyring_enter_def
        getKeyring_resume_def sample_env_def numeral_2_eq_2)

text \<open>
  C4, as claimed, has the persisted state loaded at most once in a process. Two first
  calls that overlap both pass the first test before either assigns the variable, and
  each loads: the record of calls holds \<^verbatim>\<open>getState\<close> twice.
\<close>

theorem getKeyring_loads_twice:
  "\<not> count_list (calls (shared (interleave sample_env [0, 1, 0, 1] (fresh 0 2)))) Call_getState \<le> 1"
  unfolding overlap_sample by simp

text \<open>
  C4, amended: in every interleaving of any number of calls from a fresh process, at
  most one keyring object is constructed, and exactly one once a call has returned; every
  call that has returned holds the reference in the variable, so overlapping first calls
  get the same object; each call loads at most once, so there are no more loads than
  calls; and a call made once the variable is set returns it and leaves the state as it
  is, reading nothing.
\<close>

theorem getKeyring_singleton:
  "length (heap (shared (interleave env schedule (fresh w n)))) \<le> 1
   \<and> (\<forall>i k. i < n \<and> callers (interleave env schedule (fresh w n)) ! i = Returned k \<longrightarrow>
          keyring (shared (interleave env schedule (fresh w n))) = Some k
          \<and> length (heap (shared (interleave env schedule (fresh w n)))) = 1)
   \<and> count_list (calls (shared (interleave env schedule (fresh w n)))) Call_getState \<le> n
   \<and> (\<forall>k. keyring (shared (interleave env schedule (fresh w n))) = Some k \<longrightarrow>
          getKeyring env (shared (interleave env schedule (fresh w n))) =
            (Inr k, shared (interleave env schedule (fresh w n))))"
proof (intro conjI allI impI)
  let ?c = "interleave env schedule (fresh w n)"
  have r: "returned_inv ?c"
    by (rule returned_inv_interleave) (rule returned_inv_fresh)
  have l: "loads_inv ?c"
    by (rule loads_inv_interleave) (rule loads_inv_fresh)
  have n: "length (callers ?c) = n"
    by (simp add: length_callers_interleave fresh_def)
  show "length (heap (shared ?c)) \<le> 1"
    using r by (rule returned_inv_heap)
  show "count_list (calls (shared ?c)) Call_getState \<le> n"
    using loads_inv_count [OF l] n by simp
  show "keyring (shared ?c) = Some k" if "i < n \<and> callers ?c ! i = Returned k" for i k
    using returned_inv_Returned [OF r, of i k] that n by simp
  show "length (heap (shared ?c)) = 1" if "i < n \<and> callers ?c ! i = Returned k" for i k
    using returned_inv_Returned [OF r, of i k] that n by simp
  show "getKeyring env (shared ?c) = (Inr k, shared ?c)" if "keyring (shared ?c) = Some k" for k
    using that by (rule getKeyring_cached)
qed

theorem getKeyring_singleton_witness:
  "callers (interleave sample_env [0, 1, 0, 1] (fresh 0 2)) ! 1 = Returned 0
   \<and> keyring (shared (interleave sample_env [0, 1, 0, 1] (fresh 0 2))) = Some 0
   \<and> length (heap (shared (interleave sample_env [0, 1, 0, 1] (fresh 0 2)))) = 1
   \<and> count_list (calls (shared (interleave sample_env [0, 1, 0, 1] (fresh 0 2)))) Call_getState = 2
   \<and> getKeyring sample_env (shared (interleave sample_env [0, 1, 0, 1] (fresh 0 2))) =
       (Inr 0, shared (interleave sample_env [0, 1, 0, 1] (fresh 0 2)))"
proof -
  let ?c = "interleave sample_env [0, 1, 0, 1] (fresh 0 2)"
  note t = getKeyring_singleton [of sample_env "[0, 1, 0, 1]" 0 2]
  have a: "(1::nat) < 2 \<and> callers ?c ! 1 = Returned 0"
    unfolding overlap_sample by simp
  from t a have b: "keyring (shared ?c) = Some 0 \<and> length (heap (shared ?c)) = 1"
    by blast
  with t have c: "getKeyring sample_env (shared ?c) = (Inr 0, shared ?c)"
    by blast
  have d: "count_list (calls (shared ?c)) Call_getState = 2"
    unfolding overlap_sample by simp
  from a b c d show ?thesis
    by blast
qed

text \<open>
  C9: for every interleaving of two calls from a fresh process, at most one keyring
  object is ever constructed and assigned, and when both calls have returned they hold
  the same reference, the one in the variable; yet when the second call starts before
  the first resumes, the state is loaded twice.
\<close>

theorem overlapping_first_calls:
  "length (heap (shared (interleave env schedule (fresh w 2)))) \<le> 1
   \<and> (\<forall>k0 k1. callers (interleave env schedule (fresh w 2)) ! 0 = Returned k0
              \<and> callers (interleave env schedule (fresh w 2)) ! 1 = Returned k1 \<longrightarrow>
          k0 = k1
          \<and> keyring (shared (interleave env schedule (fresh w 2))) = Some k0
          \<and> k0 < length (heap (shared (interleave env schedule (fresh w 2)))))
   \<and> count_list (calls (shared (interleave env [0, 1] (fresh w 2)))) Call_getState = 2"
proof (intro conjI allI impI)
  let ?c = "interleave env schedule (fresh w 2)"
  have r: "returned_inv ?c"
    by (rule returned_inv_interleave) (rule returned_inv_fresh)
  have n: "length (callers ?c) = 2"
    by (simp add: length_callers_interleave fresh_def)
  show "length (heap (shared ?c)) \<le> 1"
    using r by (rule returned_inv_heap)
  show "count_list (calls (shared (interleave env [0, 1] (fresh w 2)))) Call_getState = 2"
    by (simp add: interleave_def fresh_def initial_state_def advance_def getKeyring_enter_def
          numeral_2_eq_2 split: prod.splits)
  fix k0 k1
  assume b: "callers ?c ! 0 = Returned k0 \<and> callers ?c ! 1 = Returned k1"
  from returned_inv_Returned [OF r, of 0 k0] b n
  have 0: "keyring (shared ?c) = Some k0 \<and> length (heap (shared ?c)) = 1"
    by simp
  from returned_inv_Returned [OF r, of 1 k1] b n
  have 1: "keyring (shared ?c) = Some k1"
    by simp
  from 0 1 show "k0 = k1"
    by simp
  from 0 show "keyring (shared ?c) = Some k0"
    by simp
  from r 0 show "k0 < length (heap (shared ?c))"
    by (simp add: returned_inv_def)
qed

theorem overlapping_first_calls_witness:
  "callers (interleave sample_env [0, 1, 1, 0] (fresh 0 2)) ! 0 = Returned 0
   \<and> callers (interleave sample_env [0, 1, 1, 0] (fresh 0 2)) ! 1 = Returned 0
   \<and> keyring (shared (interleave sample_env [0, 1, 1, 0] (fresh 0 2))) = Some 0
   \<and> heap (shared (interleave sample_env [0, 1, 1, 0] (fresh 0 2))) = [False]
   \<and> calls (shared (interleave sample_env [0, 1, 1, 0] (fresh 0 2))) =
       [Call_getState, Call_getState, Call_new_SimpleKeyring 0]"
proof -
  let ?c = "interleave sample_env [0, 1, 1, 0] (fresh 0 2)"
  have e: "?c = \<lparr>shared = \<lparr>keyring = Some 0, heap = [False], host = 0,
                calls = [Call_getState, Call_getState, Call_new_SimpleKeyring 0]\<rparr>,
      callers = [Returned 0, Returned 0]\<rparr>"
    by (simp add: interleave_def fresh_def initial_state_def advance_def getKeyring_enter_def
          getKeyring_resume_def sample_env_def numeral_2_eq_2)
  have a: "callers ?c ! 0 = Returned 0 \<and> callers ?c ! 1 = Returned 0"
    unfolding e by simp
  with overlapping_first_calls [of sample_env "[0, 1, 1, 0]" 0]
  have b: "keyring (shared ?c) = Some 0"
    by blast
  have c: "heap (shared ?c) = [False]
           \<and> calls (shared ?c) = [Call_getState, Call_getState, Call_new_SimpleKeyring 0]"
    unfolding e by simp
  from a b c show ?thesis
    by blast
qed

end
